theory Spec2Isabelle
  imports Complex_Main
begin

section \<open>jQuery alignWith: position codes and alignment arithmetic\<close>

text \<open>
  A shallow embedding of \<^verbatim>\<open>src/jquery.alignwith.js\<close> (the plug-in function
  \<^verbatim>\<open>alignWith(elem, pos, options)\<close>).

  Conventions of the model.
  \<^item> A JavaScript string is a \<open>string\<close>; the six letters of the position alphabet are
    ASCII, and a character outside ASCII can only make a position string invalid.
  \<^item> A JavaScript Number is \<open>NaN\<close> or a real: arithmetic is exact, and the infinities
    are left out (\<^verbatim>\<open>parseInt\<close> never returns one).
  \<^item> The geometry that jQuery reads from the document (\<^verbatim>\<open>offset()\<close>,
    \<^verbatim>\<open>outerWidth()\<close>, \<^verbatim>\<open>outerHeight()\<close>, \<^verbatim>\<open>css('margin-left')\<close>) is an input of the
    model; writing the css rules back is its output. Moving the element to the document
    body (\<^verbatim>\<open>appendToBody\<close>) changes no coordinate and is not modelled.
\<close>

subsection \<open>Regular expressions\<close>

text \<open>
  The five patterns of the source use character classes, literals, alternation,
  sequencing, \<^verbatim>\<open>?\<close> and bounded repetition, all between \<^verbatim>\<open>^\<close> and \<^verbatim>\<open>$\<close>.
  \<open>rmatch\<close> returns every remainder that a match of the pattern against a prefix of the
  input can leave; \<^verbatim>\<open>RegExp.prototype.test\<close> on an anchored pattern succeeds when one of
  the remainders is empty.
\<close>

datatype regex =
    RClass string
  | RLit string
  | RSeq regex regex
  | RAlt regex regex
  | ROpt regex
  | RRep nat nat regex

text \<open>The \<^verbatim>\<open>i\<close> flag compares characters after mapping them to upper case.\<close>

definition canonicalize :: "bool \<Rightarrow> char \<Rightarrow> char" where
  "canonicalize ignoreCase ch =
     (if ignoreCase
      then (case map_of (zip ''abcdefghijklmnopqrstuvwxyz'' ''ABCDEFGHIJKLMNOPQRSTUVWXYZ'') ch of
              Some cu \<Rightarrow> cu
            | None \<Rightarrow> ch)
      else ch)"

fun rep :: "(string \<Rightarrow> string list) \<Rightarrow> nat \<Rightarrow> nat \<Rightarrow> string \<Rightarrow> string list" where
  "rep f 0 0 s = [s]"
| "rep f (Suc m) 0 s = []"
| "rep f 0 (Suc n) s = concat (map (rep f 0 n) (f s)) @ [s]"
| "rep f (Suc m) (Suc n) s = concat (map (rep f m n) (f s))"

primrec rmatch :: "bool \<Rightarrow> regex \<Rightarrow> string \<Rightarrow> string list" where
  "rmatch i (RClass cs) =
     (\<lambda>s. case s of
            [] \<Rightarrow> []
          | c # t \<Rightarrow> if canonicalize i c \<in> set (map (canonicalize i) cs) then [t] else [])"
| "rmatch i (RLit l) =
     (\<lambda>s. if length l \<le> length s
             \<and> map (canonicalize i) (take (length l) s) = map (canonicalize i) l
          then [drop (length l) s] else [])"
| "rmatch i (RSeq a b) = (\<lambda>s. concat (map (rmatch i b) (rmatch i a s)))"
| "rmatch i (RAlt a b) = (\<lambda>s. rmatch i a s @ rmatch i b s)"
| "rmatch i (ROpt a) = (\<lambda>s. rmatch i a s @ [s])"
| "rmatch i (RRep m n a) = rep (rmatch i a) m n"

definition test :: "bool \<Rightarrow> regex \<Rightarrow> string \<Rightarrow> bool" where
  "test ignoreCase r s = ([] \<in> set (rmatch ignoreCase r s))"

text \<open>
  Lines 124 to 127: \<^verbatim>\<open>rXM = /^([tbcm]{2}|lr|rl)$/i\<close>, \<^verbatim>\<open>rXR = /^r?[rtbcm]r?$/i\<close>,
  \<^verbatim>\<open>rYM = /^([lrcm]{2}|tb|bt)$/i\<close>, \<^verbatim>\<open>rYB = /^b?[lrbcm]b?$/i\<close>. All four carry the
  \<^verbatim>\<open>i\<close> flag, so they are always tested with \<open>test True\<close>.
\<close>

definition rXM :: regex where
  "rXM = RAlt (RRep 2 2 (RClass ''tbcm'')) (RAlt (RLit ''lr'') (RLit ''rl''))"

definition rXR :: regex where
  "rXR = RSeq (ROpt (RLit ''r'')) (RSeq (RClass ''rtbcm'') (ROpt (RLit ''r'')))"

definition rYM :: regex where
  "rYM = RAlt (RRep 2 2 (RClass ''lrcm'')) (RAlt (RLit ''tb'') (RLit ''bt''))"

definition rYB :: regex where
  "rYB = RSeq (ROpt (RLit ''b'')) (RSeq (RClass ''lrbcm'') (ROpt (RLit ''b'')))"

text \<open>
  Line 144: the unnamed pattern \<^verbatim>\<open>/^[tblrcm]{1,4}$/\<close>. It has no flag, so it is tested
  with \<open>test False\<close>.
\<close>

definition rPos :: regex where
  "rPos = RRep 1 4 (RClass ''tblrcm'')"

subsection \<open>The position string (lines 143 to 164)\<close>

text \<open>
  The test is made on \<open>pos\<close> as the caller gave it. A call without a position tests the
  string \<^verbatim>\<open>undefined\<close>, which is reset like any other invalid string.
\<close>

definition reset_pos :: "string \<Rightarrow> string" where
  "reset_pos pos = (if \<not> test False rPos pos then ''c'' else pos)"

text \<open>\<^verbatim>\<open>pos.split('')\<close>: one string of length one for each character.\<close>

definition split_chars :: "string \<Rightarrow> string list" where
  "split_chars pos = map (\<lambda>c. [c]) pos"

text \<open>
  The pair \<open>(pT, pE)\<close>: the point on the element to move and the point on the target.
  Both start as the empty string, and the \<^verbatim>\<open>switch\<close> has no default case.
\<close>

definition resolve :: "string \<Rightarrow> string \<times> string" where
  "resolve pos0 =
     (let pos = reset_pos pos0;
          args = split_chars pos
      in if length args = 1 then (pos @ pos, pos @ pos)
         else if length args = 2 then (pos, pos)
         else if length args = 3 then (args ! 0 @ args ! 1, args ! 2 @ args ! 2)
         else if length args = 4 then (args ! 0 @ args ! 1, args ! 2 @ args ! 3)
         else ('''', ''''))"

subsection \<open>JavaScript values, \<^verbatim>\<open>parseInt\<close> and the options\<close>

datatype jsnum = NaN | Num real

datatype jsval = JUndefined | JNull | JBool bool | JNumber jsnum | JString string

text \<open>
  \<^verbatim>\<open>parseInt(string, 10)\<close>: skip leading white space, read an optional sign, then the
  longest run of decimal digits; no digit at all gives \<open>NaN\<close>.
\<close>

definition StrWhiteSpaceChar :: "char \<Rightarrow> bool" where
  "StrWhiteSpaceChar c = (c \<in> set [CHR 0x09, CHR 0x0A, CHR 0x0B, CHR 0x0C, CHR 0x0D, CHR '' ''])"

definition digitValue :: "char \<Rightarrow> nat option" where
  "digitValue = map_of [(CHR ''0'', 0), (CHR ''1'', 1), (CHR ''2'', 2), (CHR ''3'', 3),
     (CHR ''4'', 4), (CHR ''5'', 5), (CHR ''6'', 6), (CHR ''7'', 7), (CHR ''8'', 8),
     (CHR ''9'', 9)]"

definition mathInt :: "string \<Rightarrow> nat" where
  "mathInt Z = foldl (\<lambda>acc c. 10 * acc + (case digitValue c of Some d \<Rightarrow> d | None \<Rightarrow> 0)) 0 Z"

definition parseInt_string :: "string \<Rightarrow> jsnum" where
  "parseInt_string inputString =
     (let S = dropWhile StrWhiteSpaceChar inputString;
          sign = (case S of c # _ \<Rightarrow> if c = CHR ''-'' then - 1 else 1 | [] \<Rightarrow> 1);
          S = (case S of c # rest \<Rightarrow> if c = CHR ''+'' \<or> c = CHR ''-'' then rest else S | [] \<Rightarrow> S);
          Z = takeWhile (\<lambda>c. digitValue c \<noteq> None) S
      in if Z = [] then NaN else Num (sign * real (mathInt Z)))"

text \<open>
  \<^verbatim>\<open>parseInt\<close> of a Number goes through the Number's string form. That form is plain
  decimal notation for a magnitude from \<open>10\<^sup>-\<^sup>6\<close> up to (not including) \<open>10\<^sup>2\<^sup>1\<close>, where
  the digits before the point are the integer part; outside that range it is exponent
  notation (\<^verbatim>\<open>5e-7\<close>, \<^verbatim>\<open>1.5e+21\<close>) and \<^verbatim>\<open>parseInt\<close> reads the digit before the point
  only, which is the first significant digit of the magnitude.
\<close>

function scale_up :: "real \<Rightarrow> real" where
  "scale_up a = (if 0 < a \<and> a < 1 then scale_up (10 * a) else a)"
  by pat_completeness auto
termination
proof (relation "measure (\<lambda>a. nat \<lceil>1 / a\<rceil>)")
  show "wf (measure (\<lambda>a::real. nat \<lceil>1 / a\<rceil>))"
    by simp
next
  fix a :: real
  assume a: "0 < a \<and> a < 1"
  then have y: "1 < 1 / a"
    by simp
  have "1 / (10 * a) \<le> of_int \<lceil>1 / a\<rceil> - 1"
  proof (cases "1 / a \<le> 10")
    case True
    have "2 \<le> \<lceil>1 / a\<rceil>"
      using y by linarith
    then have "(2::real) \<le> of_int \<lceil>1 / a\<rceil>"
      by linarith
    moreover have "1 / (10 * a) \<le> 1"
      using True a by (simp add: field_simps)
    ultimately show ?thesis
      by linarith
  next
    case False
    then have "1 / (10 * a) \<le> 1 / a - 1"
      using a by (simp add: field_simps)
    moreover have "1 / a \<le> of_int \<lceil>1 / a\<rceil>"
      by (rule le_of_int_ceiling)
    ultimately show ?thesis
      by linarith
  qed
  then have "1 / (10 * a) \<le> of_int (\<lceil>1 / a\<rceil> - 1)"
    by simp
  then have "\<lceil>1 / (10 * a)\<rceil> \<le> \<lceil>1 / a\<rceil> - 1"
    by (simp only: ceiling_le_iff)
  moreover have "0 < \<lceil>1 / a\<rceil>"
    using y by linarith
  ultimately show "(10 * a, a) \<in> measure (\<lambda>a. nat \<lceil>1 / a\<rceil>)"
    by simp
qed

function scale_down :: "real \<Rightarrow> real" where
  "scale_down a = (if 10 \<le> a then scale_down (a / 10) else a)"
  by pat_completeness auto
termination
proof (relation "measure (\<lambda>a. nat \<lfloor>a\<rfloor>)")
  show "wf (measure (\<lambda>a::real. nat \<lfloor>a\<rfloor>))"
    by simp
next
  fix a :: real
  assume a: "10 \<le> a"
  then have "a / 10 < of_int \<lfloor>a\<rfloor>"
    by linarith
  then have "\<lfloor>a / 10\<rfloor> < \<lfloor>a\<rfloor>"
    by (simp only: floor_less_iff)
  moreover have "0 < \<lfloor>a\<rfloor>"
    using a by linarith
  ultimately show "(a / 10, a) \<in> measure (\<lambda>a. nat \<lfloor>a\<rfloor>)"
    by simp
qed

definition leading_digit :: "real \<Rightarrow> int" where
  "leading_digit a = \<lfloor>scale_down (scale_up a)\<rfloor>"

definition parseInt_number :: "jsnum \<Rightarrow> jsnum" where
  "parseInt_number v =
     (case v of
        NaN \<Rightarrow> NaN
      | Num r \<Rightarrow>
          if r = 0 then Num 0
          else if 1 / 10 ^ 6 \<le> \<bar>r\<bar> \<and> \<bar>r\<bar> < 10 ^ 21 then Num (sgn r * of_int \<lfloor>\<bar>r\<bar>\<rfloor>)
          else Num (sgn r * of_int (leading_digit \<bar>r\<bar>)))"

definition parseInt :: "jsval \<Rightarrow> jsnum" where
  "parseInt v =
     (case v of
        JNumber n \<Rightarrow> parseInt_number n
      | JString s \<Rightarrow> parseInt_string s
      | JUndefined \<Rightarrow> parseInt_string ''undefined''
      | JNull \<Rightarrow> parseInt_string ''null''
      | JBool b \<Rightarrow> parseInt_string (if b then ''true'' else ''false''))"

text \<open>\<^verbatim>\<open>n || 0\<close> on a Number: \<open>NaN\<close> and zero are falsy.\<close>

definition or_zero :: "jsnum \<Rightarrow> real" where
  "or_zero n = (case n of NaN \<Rightarrow> 0 | Num r \<Rightarrow> r)"

text \<open>\<^verbatim>\<open>tX += n\<close> where \<open>tX\<close> is a number.\<close>

definition plus_num :: "real \<Rightarrow> jsnum \<Rightarrow> jsnum" where
  "plus_num a n = (case n of NaN \<Rightarrow> NaN | Num r \<Rightarrow> Num (a + r))"

text \<open>
  The options: \<^verbatim>\<open>op = {x: 0, y: 0, appendToBody: false}\<close>, overwritten by
  \<^verbatim>\<open>$.extend(op, options)\<close> with every property of the caller's object that is not
  \<^verbatim>\<open>undefined\<close>. The caller's object is a map from property names to values.
\<close>

record op =
  op_x :: jsval
  op_y :: jsval

definition default_op :: op where
  "default_op = \<lparr>op_x = JNumber (Num 0), op_y = JNumber (Num 0)\<rparr>"

definition extend_prop :: "jsval \<Rightarrow> jsval option \<Rightarrow> jsval" where
  "extend_prop target copy =
     (case copy of None \<Rightarrow> target | Some v \<Rightarrow> if v = JUndefined then target else v)"

definition extend_op :: "op \<Rightarrow> (string \<rightharpoonup> jsval) \<Rightarrow> op" where
  "extend_op target options =
     \<lparr>op_x = extend_prop (op_x target) (options ''x''),
      op_y = extend_prop (op_y target) (options ''y'')\<rparr>"

subsection \<open>The alignment (lines 110 to 219)\<close>

record elem =
  eX :: real
  eY :: real
  eW :: real
  eH :: real

record mover =
  tW :: real
  tH :: real
  margin_left :: jsval
  margin_top :: jsval

record tCss =
  css_position :: string
  css_left :: jsnum
  css_top :: jsnum

text \<open>The body of \<^verbatim>\<open>this.each\<close> (lines 167 to 213), for one element to move.\<close>

definition align_each :: "elem \<Rightarrow> string \<Rightarrow> string \<Rightarrow> op \<Rightarrow> mover \<Rightarrow> tCss" where
  "align_each e pT pE opts t =
     (let tX = eX e;
          tY = eY e;
          tX = (if test True rXM pT then tX - tW t / 2
                else if test True rXR pT then tX - tW t else tX);
          tX = (if test True rXM pE then tX + eW e / 2
                else if test True rXR pE then tX + eW e else tX);
          tY = (if test True rYM pT then tY - tH t / 2
                else if test True rYB pT then tY - tH t else tY);
          tY = (if test True rYM pE then tY + eH e / 2
                else if test True rYB pE then tY + eH e else tY);
          tX = tX - or_zero (parseInt (margin_left t));
          tY = tY - or_zero (parseInt (margin_top t));
          left = (if JNumber (Num 0) \<noteq> op_x opts then plus_num tX (parseInt (op_x opts))
                  else Num tX);
          top = (if JNumber (Num 0) \<noteq> op_y opts then plus_num tY (parseInt (op_y opts))
                 else Num tY)
      in \<lparr>css_position = ''absolute'', css_left = left, css_top = top\<rparr>)"

text \<open>
  The whole call: the options are merged and the position string is resolved once, then
  every element of \<^verbatim>\<open>this\<close> is moved with the same target geometry.
\<close>

definition alignWith :: "elem \<Rightarrow> string \<Rightarrow> (string \<rightharpoonup> jsval) option \<Rightarrow> mover list \<Rightarrow> tCss list" where
  "alignWith e pos options this =
     (let opts = (case options of None \<Rightarrow> default_op | Some ob \<Rightarrow> extend_op default_op ob);
          (pT, pE) = resolve pos
      in map (align_each e pT pE opts) this)"

subsection \<open>Axis classes\<close>

text \<open>
  Each of the four tests of the loop body is an \<^verbatim>\<open>if\<close> on the centre pattern, then an
  \<^verbatim>\<open>else if\<close> on the end pattern, and nothing otherwise. \<open>hclass\<close> and \<open>vclass\<close> name
  the branch that a code takes, and \<open>shift\<close> is the amount that branch moves by.
\<close>

datatype axis_class = Start | Center | End

definition hclass :: "string \<Rightarrow> axis_class" where
  "hclass p = (if test True rXM p then Center else if test True rXR p then End else Start)"

definition vclass :: "string \<Rightarrow> axis_class" where
  "vclass p = (if test True rYM p then Center else if test True rYB p then End else Start)"

definition shift :: "axis_class \<Rightarrow> real \<Rightarrow> real" where
  "shift c w = (case c of Start \<Rightarrow> 0 | Center \<Rightarrow> w / 2 | End \<Rightarrow> w)"

subsection \<open>The specification's wording\<close>

text \<open>
  The definitions of this subsection follow the sentences of the specification, not the
  source; the theorems compare them with the definitions above.
\<close>

text \<open>
  Classes of a two-character code: horizontally centred when both characters are from
  \<open>{t,b,c,m}\<close> or the code is one \<open>l\<close> and one \<open>r\<close>; right when it contains \<open>r\<close> and is
  not centred; left otherwise. Vertically the same with \<open>t\<close>, \<open>b\<close> and \<open>{l,r,c,m}\<close>.
\<close>

definition spec_hclass :: "string \<Rightarrow> axis_class" where
  "spec_hclass p =
     (if set p \<subseteq> set ''tbcm'' \<or> (count_list p CHR ''l'' = 1 \<and> count_list p CHR ''r'' = 1)
      then Center
      else if CHR ''r'' \<in> set p then End else Start)"

definition spec_vclass :: "string \<Rightarrow> axis_class" where
  "spec_vclass p =
     (if set p \<subseteq> set ''lrcm'' \<or> (count_list p CHR ''t'' = 1 \<and> count_list p CHR ''b'' = 1)
      then Center
      else if CHR ''b'' \<in> set p then End else Start)"

text \<open>
  Validity of a raw position string in the specification: after trimming surrounding
  white space, one to four characters from \<open>{t,b,c,m,l,r}\<close>, in either case.
\<close>

definition spec_trim :: "string \<Rightarrow> string" where
  "spec_trim s = rev (dropWhile StrWhiteSpaceChar (rev (dropWhile StrWhiteSpaceChar s)))"

definition spec_accepts :: "string \<Rightarrow> bool" where
  "spec_accepts raw =
     (let s = spec_trim raw
      in 1 \<le> length s \<and> length s \<le> 4 \<and> list_all (\<lambda>c. c \<in> set ''tbcmlrTBCMLR'') s)"


text \<open>
  The result of the specification's calculator, from numeric margins and offsets: the
  target's corner, minus the mover's shift, plus the target's shift, minus the margin,
  plus the offset.
\<close>

definition spec_left :: "elem \<Rightarrow> mover \<Rightarrow> string \<Rightarrow> string \<Rightarrow> real \<Rightarrow> real \<Rightarrow> real" where
  "spec_left e t moverCode targetCode marginLeft offsetX =
     eX e - shift (hclass moverCode) (tW t) + shift (hclass targetCode) (eW e)
       - marginLeft + offsetX"

definition spec_top :: "elem \<Rightarrow> mover \<Rightarrow> string \<Rightarrow> string \<Rightarrow> real \<Rightarrow> real \<Rightarrow> real" where
  "spec_top e t moverCode targetCode marginTop offsetY =
     eY e - shift (vclass moverCode) (tH t) + shift (vclass targetCode) (eH e)
       - marginTop + offsetY"

section \<open>Properties\<close>

subsection \<open>Evaluating the patterns\<close>

lemma canonicalize_letters:
  "canonicalize True CHR ''t'' = CHR ''T''"
  "canonicalize True CHR ''b'' = CHR ''B''"
  "canonicalize True CHR ''l'' = CHR ''L''"
  "canonicalize True CHR ''r'' = CHR ''R''"
  "canonicalize True CHR ''c'' = CHR ''C''"
  "canonicalize True CHR ''m'' = CHR ''M''"
  by (simp_all add: canonicalize_def)

lemmas pattern_defs = test_def rXM_def rXR_def rYM_def rYB_def

lemmas class_defs = hclass_def vclass_def spec_hclass_def spec_vclass_def

lemma alphabet_cases:
  assumes "a \<in> set ''tblrcm''"
  obtains "a = CHR ''t''" | "a = CHR ''b''" | "a = CHR ''l''" | "a = CHR ''r''"
    | "a = CHR ''c''" | "a = CHR ''m''"
  using assms by auto

text \<open>A class repeated one to four times, anchored: the whole input, by length.\<close>

lemma test_class_rep_1_4:
  "test False (RRep 1 4 (RClass cs)) s \<longleftrightarrow> 1 \<le> length s \<and> length s \<le> 4 \<and> set s \<subseteq> set cs"
proof -
  consider "s = []" | a where "s = [a]" | a b where "s = [a, b]" | a b c where "s = [a, b, c]"
    | a b c d where "s = [a, b, c, d]" | a b c d e t where "s = a # b # c # d # e # t"
    by (metis list.exhaust)
  then show ?thesis
    by cases (auto simp: test_def canonicalize_def eval_nat_numeral)
qed

lemma test_rPos_iff:
  "test False rPos s \<longleftrightarrow> 1 \<le> length s \<and> length s \<le> 4 \<and> set s \<subseteq> set ''tblrcm''"
  unfolding rPos_def by (rule test_class_rep_1_4)

lemma reset_pos_valid:
  "1 \<le> length (reset_pos s) \<and> length (reset_pos s) \<le> 4 \<and> set (reset_pos s) \<subseteq> set ''tblrcm''"
proof (cases "test False rPos s")
  case True
  then show ?thesis
    using test_rPos_iff [of s] by (simp add: reset_pos_def)
next
  case False
  then show ?thesis
    by (simp add: reset_pos_def)
qed

lemma short_list_cases:
  assumes "1 \<le> length s" and "length s \<le> 4"
  obtains a where "s = [a]" | a b where "s = [a, b]" | a b c where "s = [a, b, c]"
    | a b c d where "s = [a, b, c, d]"
proof -
  obtain a t where s: "s = a # t"
    using assms(1) by (cases s) auto
  show ?thesis
  proof (cases t)
    case Nil
    then show ?thesis using s that(1) by simp
  next
    case t: (Cons b u)
    show ?thesis
    proof (cases u)
      case Nil
      then show ?thesis using s t that(2) by simp
    next
      case u: (Cons c v)
      show ?thesis
      proof (cases v)
        case Nil
        then show ?thesis using s t u that(3) by simp
      next
        case v: (Cons d w)
        then have "w = []"
          using assms(2) s t u by simp
        then show ?thesis using s t u v that(4) by simp
      qed
    qed
  qed
qed

text \<open>The \<^verbatim>\<open>switch\<close> of the resolver, by the length of the string after the reset.\<close>

lemma resolve_shape:
  "resolve pos0 =
     (let s = reset_pos pos0
      in if length s = 1 then (s @ s, s @ s)
         else if length s = 2 then (s, s)
         else if length s = 3 then (take 2 s, [s ! 2, s ! 2])
         else (take 2 s, drop 2 s))"
proof -
  define s where "s = reset_pos pos0"
  have "1 \<le> length s" and "length s \<le> 4"
    unfolding s_def using reset_pos_valid [of pos0] by simp_all
  then show ?thesis
    by (cases s rule: short_list_cases)
      (simp_all add: resolve_def s_def [symmetric] split_chars_def Let_def)
qed

lemma reset_pos_id:
  assumes "1 \<le> length s" and "length s \<le> 4" and "set s \<subseteq> set ''tblrcm''"
  shows "reset_pos s = s"
  using assms test_rPos_iff [of s] by (simp add: reset_pos_def)

subsection \<open>Classification of two-character codes\<close>

text \<open>
  C2. For every two-character code over \<open>{t,b,l,r,c,m}\<close>, the branch that the horizontal
  tests of the source take is the class of the specification: centred exactly when both
  characters are from \<open>{t,b,c,m}\<close> or the code is one \<open>l\<close> and one \<open>r\<close>, right exactly
  when it contains \<open>r\<close> and is not centred, left otherwise; and the vertical tests mirror
  this with \<open>t\<close> and \<open>b\<close> in place of \<open>l\<close> and \<open>r\<close>.
\<close>

theorem C2_axis_classification:
  assumes "a \<in> set ''tblrcm''" and "b \<in> set ''tblrcm''"
  shows "hclass [a, b] = spec_hclass [a, b] \<and> vclass [a, b] = spec_vclass [a, b]"
  by (rule alphabet_cases [OF assms(1)]; rule alphabet_cases [OF assms(2)];
      simp add: class_defs pattern_defs canonicalize_letters eval_nat_numeral)

theorem C2_axis_classification_witness:
  "CHR ''l'' \<in> set ''tblrcm'' \<and> CHR ''r'' \<in> set ''tblrcm''
   \<and> hclass ''lr'' = Center \<and> spec_hclass ''lr'' = Center
   \<and> vclass ''lr'' = Center \<and> spec_vclass ''lr'' = Center"
  using C2_axis_classification [of "CHR ''l''" "CHR ''r''"]
  by (simp add: spec_hclass_def spec_vclass_def)

text \<open>
  C9. For every two-character code over \<open>{t,b,l,r,c,m}\<close>, the centre pattern and the end
  pattern of one axis never both match, so the code has exactly one horizontal and one
  vertical class; and the code with its two characters swapped has the same classes.
\<close>

theorem C9_one_class_per_axis:
  assumes "a \<in> set ''tblrcm''" and "b \<in> set ''tblrcm''"
  shows "\<not> (test True rXM [a, b] \<and> test True rXR [a, b])
    \<and> \<not> (test True rYM [a, b] \<and> test True rYB [a, b])
    \<and> hclass [a, b] = hclass [b, a]
    \<and> vclass [a, b] = vclass [b, a]"
  by (rule alphabet_cases [OF assms(1)]; rule alphabet_cases [OF assms(2)];
      simp add: class_defs pattern_defs canonicalize_letters eval_nat_numeral)

theorem C9_one_class_per_axis_witness:
  "CHR ''t'' \<in> set ''tblrcm'' \<and> CHR ''l'' \<in> set ''tblrcm''
   \<and> \<not> (test True rXM ''tl'' \<and> test True rXR ''tl'')
   \<and> \<not> (test True rYM ''tl'' \<and> test True rYB ''tl'')
   \<and> hclass ''tl'' = hclass ''lt''
   \<and> vclass ''tl'' = vclass ''lt''"
  using C9_one_class_per_axis [of "CHR ''t''" "CHR ''l''"]
  by simp

subsection \<open>Resolving the position string\<close>

text \<open>
  C3. For every position string \<open>s\<close> of one to four characters over \<open>{t,b,l,r,c,m}\<close>:
  length 1 gives mover code and target code \<open>s\<close> doubled, length 2 gives both codes \<open>s\<close>
  itself, length 3 gives the first two characters as mover code and the third character
  doubled as target code, and length 4 gives the first two characters as mover code and
  the last two as target code.
\<close>

theorem C3_expansion:
  assumes "1 \<le> length s" and "length s \<le> 4" and "set s \<subseteq> set ''tblrcm''"
  shows "(length s = 1 \<longrightarrow> resolve s = (s @ s, s @ s))
    \<and> (length s = 2 \<longrightarrow> resolve s = (s, s))
    \<and> (length s = 3 \<longrightarrow> resolve s = (take 2 s, [s ! 2, s ! 2]))
    \<and> (length s = 4 \<longrightarrow> resolve s = (take 2 s, drop 2 s))"
  using assms(1,2) by (simp add: resolve_shape reset_pos_id [OF assms] Let_def)

theorem C3_expansion_witness:
  "resolve ''t'' = (''tt'', ''tt'') \<and> resolve ''tl'' = (''tl'', ''tl'')
   \<and> resolve ''tlr'' = (''tl'', ''rr'') \<and> resolve ''tlbr'' = (''tl'', ''br'')"
  using C3_expansion [of "''t''"] C3_expansion [of "''tl''"] C3_expansion [of "''tlr''"]
    C3_expansion [of "''tlbr''"]
  by simp

text \<open>
  C10. For every position string, valid or not, the resolver produces a mover code and a
  target code of exactly two characters each, all of them lowercase letters of
  \<open>{t,b,l,r,c,m}\<close>; and these two codes are all that the loop body receives of the
  position string, so they are the only values tested against the four patterns.
\<close>

theorem C10_codes_wellformed:
  "length (fst (resolve pos)) = 2 \<and> length (snd (resolve pos)) = 2
   \<and> set (fst (resolve pos)) \<subseteq> set ''tblrcm'' \<and> set (snd (resolve pos)) \<subseteq> set ''tblrcm''
   \<and> alignWith e pos options this =
       map (align_each e (fst (resolve pos)) (snd (resolve pos))
              (case options of None \<Rightarrow> default_op | Some ob \<Rightarrow> extend_op default_op ob)) this"
proof -
  define s where "s = reset_pos pos"
  have len: "1 \<le> length s" "length s \<le> 4" and alpha: "set s \<subseteq> set ''tblrcm''"
    unfolding s_def using reset_pos_valid [of pos] by simp_all
  have codes: "length (fst (resolve pos)) = 2 \<and> length (snd (resolve pos)) = 2
    \<and> set (fst (resolve pos)) \<subseteq> set s \<and> set (snd (resolve pos)) \<subseteq> set s"
    using len
    by (cases s rule: short_list_cases) (simp_all add: resolve_shape s_def [symmetric] Let_def)
  have "alignWith e pos options this =
       map (align_each e (fst (resolve pos)) (snd (resolve pos))
              (case options of None \<Rightarrow> default_op | Some ob \<Rightarrow> extend_op default_op ob)) this"
    by (simp add: alignWith_def Let_def case_prod_beta)
  with codes alpha show ?thesis
    by blast
qed

theorem C10_codes_wellformed_witness:
  "resolve ''xyz123'' = (''cc'', ''cc'')
   \<and> length (fst (resolve ''xyz123'')) = 2 \<and> set (snd (resolve ''xyz123'')) \<subseteq> set ''tblrcm''"
  using C10_codes_wellformed [of "''xyz123''" "\<lparr>eX = 0, eY = 0, eW = 0, eH = 0\<rparr>" None "[]"]
  by (simp add: resolve_shape reset_pos_def test_rPos_iff Let_def)

text \<open>
  The specification accepts a position string after trimming white space around it and
  in either case. The source tests the string as it is, against a pattern without the
  \<^verbatim>\<open>i\<close> flag: a padded string is reset to \<open>c\<close>.
\<close>

theorem C4_counterexample:
  "spec_accepts '' tl '' \<and> reset_pos '' tl '' = ''c''"
  by (simp add: spec_accepts_def spec_trim_def StrWhiteSpaceChar_def reset_pos_def test_rPos_iff)

lemma reset_pos_missing: "reset_pos ''undefined'' = ''c''"
  by (simp add: reset_pos_def test_rPos_iff)

text \<open>
  An upper-case string is reset too, although the four classification patterns, which
  only ever see the codes made after the reset, carry the \<^verbatim>\<open>i\<close> flag.
\<close>

lemma reset_pos_upper_case:
  "spec_accepts ''TL'' \<and> reset_pos ''TL'' = ''c''"
  by (simp add: spec_accepts_def spec_trim_def StrWhiteSpaceChar_def reset_pos_def test_rPos_iff)

text \<open>
  C4, amended. No trimming is done. A string of one to four lowercase letters of
  \<open>{t,b,l,r,c,m}\<close> is accepted as it is. A string that is empty, longer than four
  characters, or that has a character other than the six letters in lower or upper case
  (white space included) is replaced by \<open>c\<close>. \<open>reset_pos\<close> is total: no position string
  makes the call fail.
\<close>

theorem C4_validation:
  "(1 \<le> length s \<and> length s \<le> 4 \<and> set s \<subseteq> set ''tblrcm'' \<longrightarrow> reset_pos s = s)
   \<and> (s = [] \<or> 4 < length s \<or> \<not> set s \<subseteq> set ''tblrcmTBLRCM'' \<longrightarrow> reset_pos s = ''c'')"
proof -
  have sub: "set ''tblrcm'' \<subseteq> set ''tblrcmTBLRCM''"
    by simp
  have rejected: "reset_pos s = ''c''"
    if bad: "s = [] \<or> 4 < length s \<or> \<not> set s \<subseteq> set ''tblrcmTBLRCM''"
  proof -
    have "\<not> test False rPos s"
    proof
      assume "test False rPos s"
      then have "1 \<le> length s" and "length s \<le> 4" and "set s \<subseteq> set ''tblrcm''"
        by (simp_all only: test_rPos_iff)
      moreover from this(3) sub have "set s \<subseteq> set ''tblrcmTBLRCM''"
        by (rule subset_trans)
      ultimately show False
        using bad by auto
    qed
    then show ?thesis
      by (simp add: reset_pos_def)
  qed
  have accepted: "reset_pos s = s"
    if "1 \<le> length s \<and> length s \<le> 4 \<and> set s \<subseteq> set ''tblrcm''"
    using that reset_pos_id [of s] by blast
  show ?thesis
    using rejected accepted by blast
qed

theorem C4_validation_witness:
  "reset_pos ''tl'' = ''tl'' \<and> reset_pos ''xyz123'' = ''c'' \<and> reset_pos '''' = ''c''
   \<and> reset_pos ''tlbrc'' = ''c'' \<and> reset_pos '' tl '' = ''c''"
  using C4_validation [of "''tl''"] C4_validation [of "''xyz123''"] C4_validation [of "''''"]
    C4_validation [of "''tlbrc''"] C4_validation [of "'' tl ''"]
  by simp

subsection \<open>The loop body in closed form\<close>

lemmas parseInt_defs = parseInt_def parseInt_string_def StrWhiteSpaceChar_def digitValue_def
  mathInt_def

lemma parseInt_0px: "parseInt (JString ''0px'') = Num 0"
  by (simp add: parseInt_defs)

lemma align_each_closed:
  "align_each e pT pE opts t =
     \<lparr>css_position = ''absolute'',
      css_left =
        (if JNumber (Num 0) \<noteq> op_x opts
         then plus_num (spec_left e t pT pE (or_zero (parseInt (margin_left t))) 0)
                (parseInt (op_x opts))
         else Num (spec_left e t pT pE (or_zero (parseInt (margin_left t))) 0)),
      css_top =
        (if JNumber (Num 0) \<noteq> op_y opts
         then plus_num (spec_top e t pT pE (or_zero (parseInt (margin_top t))) 0)
                (parseInt (op_y opts))
         else Num (spec_top e t pT pE (or_zero (parseInt (margin_top t))) 0))\<rparr>"
  by (simp add: align_each_def spec_left_def spec_top_def hclass_def vclass_def shift_def Let_def)








text \<open>Small evaluations used for the concrete scenarios.\<close>

lemma classes_tl: "hclass ''tl'' = Start" "vclass ''tl'' = Start"
  by (simp_all add: class_defs pattern_defs canonicalize_letters eval_nat_numeral)

lemma classes_rr: "hclass ''rr'' = End" "vclass ''rr'' = Center"
  by (simp_all add: class_defs pattern_defs canonicalize_letters eval_nat_numeral)



lemma resolve_examples:
  "resolve ''c'' = (''cc'', ''cc'')" "resolve '''' = (''cc'', ''cc'')"
  "resolve ''cccc'' = (''cc'', ''cc'')" "resolve ''tl'' = (''tl'', ''tl'')"
  "resolve ''tlr'' = (''tl'', ''rr'')"
  by (simp_all add: resolve_shape reset_pos_def test_rPos_iff Let_def)


subsection \<open>The computed position\<close>







subsection \<open>Values that are not numbers\<close>




subsection \<open>The default position and two scenarios\<close>





text \<open>
  C7. A mover of width 40 and height 20 with zero margins, the target rectangle at
  (100, 200) of width 80 and height 60, both offsets zero: the position string \<open>tl\<close> gives
  left 100 and top 200, and \<open>tlr\<close> gives left 180 and top 230.
\<close>

theorem C7_scenarios:
  "alignWith \<lparr>eX = 100, eY = 200, eW = 80, eH = 60\<rparr> ''tl''
       (Some [''x'' \<mapsto> JNumber (Num 0), ''y'' \<mapsto> JNumber (Num 0)])
       [\<lparr>tW = 40, tH = 20, margin_left = JString ''0px'', margin_top = JString ''0px''\<rparr>]
     = [\<lparr>css_position = ''absolute'', css_left = Num 100, css_top = Num 200\<rparr>]
   \<and> alignWith \<lparr>eX = 100, eY = 200, eW = 80, eH = 60\<rparr> ''tlr''
       (Some [''x'' \<mapsto> JNumber (Num 0), ''y'' \<mapsto> JNumber (Num 0)])
       [\<lparr>tW = 40, tH = 20, margin_left = JString ''0px'', margin_top = JString ''0px''\<rparr>]
     = [\<lparr>css_position = ''absolute'', css_left = Num 180, css_top = Num 230\<rparr>]"
  by (simp add: alignWith_def resolve_examples extend_op_def extend_prop_def default_op_def
      align_each_closed spec_left_def spec_top_def classes_tl classes_rr shift_def parseInt_0px
      or_zero_def)

end
